theory Spec2Isabelle
  imports Complex_Main "HOL-Library.Sublist"
begin

section \<open>Data model\<close>

text \<open>
  One row of the energy table, as the script reads it from
  \<^verbatim>\<open>World Energy Consumption.csv\<close>: the pandas index label of the row, the
  columns \<^verbatim>\<open>country\<close> and \<^verbatim>\<open>year\<close>, and the numeric columns that the four
  renderers read. Numeric cells are idealised as real numbers (no NaN, no rounding).
  A table is the list of its rows in index order.
\<close>

record row =
  idx :: nat
  country :: string
  year :: int
  wind_electricity :: real
  greenhouse_gas_emissions :: real
  coal_electricity :: real
  fossil_electricity :: real
  carbon_intensity_elec :: real
  gas_electricity :: real
  nuclear_electricity :: real
  hydro_electricity :: real
  solar_electricity :: real
  biofuel_electricity :: real

type_synonym table = "row list"

section \<open>Filter\<close>

text \<open>
  \<^verbatim>\<open>df_selected = df[df['country'].isin(selected_countries)]\<close>
  \<^verbatim>\<open>return df_selected[(df_selected['year'] >= start_year) & (df_selected['year'] <= end_year)]\<close>
  Boolean-mask indexing keeps the rows whose mask entry is true, in their order and with
  their index labels.
\<close>

definition filter_data :: "table \<Rightarrow> string list \<Rightarrow> int \<Rightarrow> int \<Rightarrow> table" where
  "filter_data df selected_countries start_year end_year =
     (let df_selected = filter (\<lambda>r. country r \<in> set selected_countries) df
      in filter (\<lambda>r. year r \<ge> start_year \<and> year r \<le> end_year) df_selected)"

text \<open>
  The same function with the objects it touches made explicit. The heap holds the
  DataFrame objects that exist, a reference is a position in it, and indexing a frame
  with a boolean mask builds a new frame object and leaves every existing one as it is.
  A reference outside the heap has no object (\<open>None\<close>).
\<close>

type_synonym heap = "table list"

definition alloc :: "heap \<Rightarrow> table \<Rightarrow> heap \<times> nat" where
  "alloc h t = (h @ [t], length h)"

definition getitem_mask :: "(row \<Rightarrow> bool) \<Rightarrow> heap \<Rightarrow> nat \<Rightarrow> (heap \<times> nat) option" where
  "getitem_mask keep h p = (if p < length h then Some (alloc h (filter keep (h ! p))) else None)"

definition filter_data_heap ::
  "heap \<Rightarrow> nat \<Rightarrow> string list \<Rightarrow> int \<Rightarrow> int \<Rightarrow> (heap \<times> nat) option" where
  "filter_data_heap h df selected_countries start_year end_year =
     (case getitem_mask (\<lambda>r. country r \<in> set selected_countries) h df of
        None \<Rightarrow> None
      | Some (h1, df_selected) \<Rightarrow>
          getitem_mask (\<lambda>r. year r \<ge> start_year \<and> year r \<le> end_year) h1 df_selected)"

section \<open>Failures and files\<close>

text \<open>
  The script handles no exception, so the first one raised ends the run. Each function
  that can raise returns \<open>Inl\<close> of the exception or \<open>Inr\<close> of its result.
\<close>

datatype error =
    IndexError | ValueError | ZeroDivisionError | FileNotFoundError | OSError |
    UnidentifiedImageError | UnicodeDecodeError

text \<open>
  A figure is what a renderer hands to \<^verbatim>\<open>plt.savefig\<close>: its size in inches, the
  plotting calls in order with the data they draw, the title, the axis labels, the tick
  labels set by \<^verbatim>\<open>plt.xticks\<close>, and the resolution it is saved at. Colours, markers
  and legends are not recorded; of the colour cycle only its length counts, where a
  renderer sets it.
\<close>

datatype plot_cmd =
    Plot "int list" "real list" string
  | Bar "(real \<times> real) list" real string
  | Pie "real list" "string list"

record figure =
  figsize :: "nat \<times> nat"
  cmds :: "plot_cmd list"
  title :: string
  xlabel :: string
  ylabel :: string
  xticks :: "(real list \<times> string list) option"
  dpi :: nat

text \<open>The working directory: the CSV input and the chart images, by file name.\<close>

datatype disk_file = Csv table | Png figure

type_synonym disk = "string \<Rightarrow> disk_file option"


definition savefig :: "string \<Rightarrow> figure \<Rightarrow> disk \<Rightarrow> disk" where
  "savefig name fig d = d(name \<mapsto> Png fig)"

section \<open>Chart renderers\<close>

text \<open>
  \<^verbatim>\<open>for country in selected_countries:\<close>
  \<^verbatim>\<open>    df_country = df_selected[df_selected['country'] == country]\<close>
  \<^verbatim>\<open>    plt.plot(df_country['year'], df_country['wind_electricity'], marker='o', label=country)\<close>
  Both columns come from the same frame, so \<^verbatim>\<open>plt.plot\<close> always gets two
  sequences of one length; an empty frame gives an empty line. The lines take their
  colours from the colour cycle in force, which is matplotlib's default one or the one a
  completed bar chart has left, and so is not empty.
\<close>

definition wind_energy_figure :: "table \<Rightarrow> string list \<Rightarrow> figure" where
  "wind_energy_figure df_selected selected_countries =
     \<lparr>figsize = (8, 6),
      cmds = map (\<lambda>c. let df_country = filter (\<lambda>r. country r = c) df_selected
                      in Plot (map year df_country) (map wind_electricity df_country) c)
                 selected_countries,
      title = ''Electricity Generation from Wind (2012-2022)'',
      xlabel = ''Year'',
      ylabel = ''Renewable Energy Consumption (TWh)'',
      xticks = None,
      dpi = 300\<rparr>"

definition plot_wind_energy_trend :: "table \<Rightarrow> string list \<Rightarrow> disk \<Rightarrow> error + disk" where
  "plot_wind_energy_trend df_selected selected_countries d =
     Inr (savefig ''Wind_energy_plot.png'' (wind_energy_figure df_selected selected_countries) d)"

text \<open>
  \<^verbatim>\<open>plt.bar(x, height, width=...)\<close> first takes the next colour of the colour cycle,
  which raises \<^verbatim>\<open>ZeroDivisionError\<close> when the cycle has no colour. Then it
  broadcasts its arguments against each other with numpy's rule: two sequences fit when
  they have the same length or one of them has length one, and otherwise the call raises
  \<^verbatim>\<open>ValueError\<close> (shape mismatch).
\<close>

definition broadcast2 :: "'a list \<Rightarrow> 'b list \<Rightarrow> error + ('a \<times> 'b) list" where
  "broadcast2 xs ys =
     (if length xs = length ys then Inr (zip xs ys)
      else if length xs = 1 then Inr (map (\<lambda>y. (hd xs, y)) ys)
      else if length ys = 1 then Inr (map (\<lambda>x. (x, hd ys)) xs)
      else Inl ValueError)"

definition plt_bar :: "nat \<Rightarrow> real list \<Rightarrow> real list \<Rightarrow> real \<Rightarrow> string \<Rightarrow> error + plot_cmd" where
  "plt_bar n_colors x_coordinates heights w label =
     (if n_colors = 0 then Inl ZeroDivisionError
      else case broadcast2 x_coordinates heights of
             Inl e \<Rightarrow> Inl e
           | Inr xh \<Rightarrow> Inr (Bar xh w label))"

definition bar_width :: real where
  "bar_width = 2 / 10"

text \<open>
  The three columns of the bar chart, each with the label the script computes from the
  column name by \<^verbatim>\<open>energy_type.replace("_", " ").title()\<close>.
\<close>

definition energy_types :: "(string \<times> (row \<Rightarrow> real)) list" where
  "energy_types =
     [(''Greenhouse Gas Emissions'', greenhouse_gas_emissions),
      (''Coal Electricity'', coal_electricity),
      (''Fossil Electricity'', fossil_electricity)]"

text \<open>
  \<^verbatim>\<open>for i, energy_type in enumerate(energy_types):\<close>
  \<^verbatim>\<open>    x_coordinates = [j + i * bar_width for j in range(len(selected_countries))]\<close>
  \<^verbatim>\<open>    plt.bar(x_coordinates, df_2018[energy_type], width=bar_width, label=...)\<close>
  The loop carries the length of the colour cycle in force.
\<close>

fun bar_loop ::
  "nat \<Rightarrow> table \<Rightarrow> nat \<Rightarrow> nat \<Rightarrow> (string \<times> (row \<Rightarrow> real)) list \<Rightarrow> error + plot_cmd list" where
  "bar_loop n_colors df_2018 n i [] = Inr []"
| "bar_loop n_colors df_2018 n i ((label, col) # rest) =
     (let x_coordinates = map (\<lambda>j. real j + real i * bar_width) [0..<n]
      in case plt_bar n_colors x_coordinates (map col df_2018) bar_width label of
           Inl e \<Rightarrow> Inl e
         | Inr b \<Rightarrow>
             (case bar_loop n_colors df_2018 n (Suc i) rest of
                Inl e \<Rightarrow> Inl e
              | Inr bs \<Rightarrow> Inr (b # bs)))"

definition generation_mix_figure :: "plot_cmd list \<Rightarrow> string list \<Rightarrow> figure" where
  "generation_mix_figure bars selected_countries =
     \<lparr>figsize = (8, 6),
      cmds = bars,
      title = ''Green House Gas Emission vs Carbon and fossil electricity production (2022)'',
      xlabel = ''Country'',
      ylabel = ''Electricity Generation (TWh)'',
      xticks = Some (map (\<lambda>j. real j + bar_width) [0..<length selected_countries],
                     selected_countries),
      dpi = 300\<rparr>"

text \<open>
  \<^verbatim>\<open>df_2018 = df_selected[df_selected['year'] == 2022]\<close>
  \<^verbatim>\<open>sns.set_palette("deep", n_colors=len(df_selected['country'].unique()))\<close>
  The palette call makes the colour cycle as long as the number of distinct countries in
  the table, which is zero for a table without rows.
\<close>

definition plot_electricity_generation_mix :: "table \<Rightarrow> string list \<Rightarrow> disk \<Rightarrow> error + disk" where
  "plot_electricity_generation_mix df_selected selected_countries d =
     (let df_2018 = filter (\<lambda>r. year r = 2022) df_selected;
          n_colors = length (remdups (map country df_selected))
      in case bar_loop n_colors df_2018 (length selected_countries) 0 energy_types of
           Inl e \<Rightarrow> Inl e
         | Inr bars \<Rightarrow>
             Inr (savefig ''electricity_generation_mix_plot.png''
                    (generation_mix_figure bars selected_countries) d))"

definition carbon_intensity_figure :: "table \<Rightarrow> string list \<Rightarrow> figure" where
  "carbon_intensity_figure df_selected selected_countries =
     \<lparr>figsize = (8, 6),
      cmds = map (\<lambda>c. let df_country = filter (\<lambda>r. country r = c) df_selected
                      in Plot (map year df_country) (map carbon_intensity_elec df_country) c)
                 selected_countries,
      title = ''Carbon Intensity of Electricity Generation Over Time (2012-2022)'',
      xlabel = ''Year'',
      ylabel = ''Carbon Intensity (gCO2/kWh)'',
      xticks = None,
      dpi = 300\<rparr>"

definition plot_carbon_intensity :: "table \<Rightarrow> string list \<Rightarrow> disk \<Rightarrow> error + disk" where
  "plot_carbon_intensity df_selected selected_countries d =
     Inr (savefig ''carbon_intensity_plot.png'' (carbon_intensity_figure df_selected selected_countries) d)"

text \<open>
  The pie chart. \<^verbatim>\<open>.iloc[0]\<close> raises \<^verbatim>\<open>IndexError\<close> on a frame with no row, and
  \<^verbatim>\<open>ax.pie\<close> raises \<^verbatim>\<open>ValueError\<close> on a negative wedge size and on wedge sizes
  that sum to zero.
\<close>

definition pie_sizes :: "row \<Rightarrow> real list" where
  "pie_sizes r =
     [coal_electricity r, gas_electricity r, nuclear_electricity r, hydro_electricity r,
      wind_electricity r, solar_electricity r, fossil_electricity r, biofuel_electricity r]"

definition pie_figure :: "row \<Rightarrow> figure" where
  "pie_figure r =
     \<lparr>figsize = (8, 6),
      cmds = [Pie (pie_sizes r)
                [''Coal'', ''Gas'', ''Nuclear'', ''Hydro'', ''Wind'', ''Solar'', ''Fossil'', ''Bio'']],
      title = ''China's Electricity Production from Different Sources in 2022'',
      xlabel = [],
      ylabel = [],
      xticks = None,
      dpi = 300\<rparr>"

definition plot_china_electricity_production_pie :: "table \<Rightarrow> disk \<Rightarrow> error + disk" where
  "plot_china_electricity_production_pie df_energy d =
     (let china_data_2018 = filter (\<lambda>r. country r = ''China'' \<and> year r = 2022) df_energy
      in case china_data_2018 of
           [] \<Rightarrow> Inl IndexError
         | r # _ \<Rightarrow>
             if \<exists>v \<in> set (pie_sizes r). v < 0 then Inl ValueError
             else if sum_list (pie_sizes r) = 0 then Inl ValueError
             else Inr (savefig ''china_electricity_production_pie.png'' (pie_figure r) d))"

section \<open>Compositor\<close>

text \<open>
  What the compositor takes from its surroundings: which font files
  \<^verbatim>\<open>ImageFont.truetype\<close> can load, the size \<^verbatim>\<open>draw.textsize\<close> measures for a text
  in a font, and \<^verbatim>\<open>textwrap.fill\<close>. A font is its file name and its point size.
\<close>

type_synonym font = "string \<times> nat"

record env =
  font_files :: "string \<Rightarrow> bool"
  textsize :: "string \<Rightarrow> font \<Rightarrow> int \<times> int"
  fill :: "string \<Rightarrow> nat \<Rightarrow> string"

definition truetype :: "env \<Rightarrow> string \<Rightarrow> nat \<Rightarrow> error + font" where
  "truetype e path sz = (if font_files e path then Inr (path, sz) else Inl OSError)"

text \<open>
  A loaded image: the figure it shows, its mode, its size in pixels and its alpha mask.
  The canvas: mode, size, background colour and the drawing calls made on it, in order.
\<close>

datatype alpha_mask = RoundedRectangle "int \<times> int" "int \<times> int" int nat

record pimage =
  src :: figure
  mode :: string
  isize :: "int \<times> int"
  alpha :: "alpha_mask option"

datatype draw_op =
    Text "int \<times> int" string font string
  | Paste pimage "int \<times> int"
  | Rectangle "int \<times> int" "int \<times> int" string
  | MultilineText "int \<times> int" string font string string

record canvas =
  cmode :: string
  width :: int
  height :: int
  color :: string
  ops :: "draw_op list"

definition draw_on :: "draw_op \<Rightarrow> canvas \<Rightarrow> canvas" where
  "draw_on c img = img\<lparr>ops := ops img @ [c]\<rparr>"

definition image_open :: "string \<Rightarrow> disk \<Rightarrow> error + pimage" where
  "image_open image_path d =
     (case d image_path of
        None \<Rightarrow> Inl FileNotFoundError
      | Some (Csv _) \<Rightarrow> Inl UnidentifiedImageError
      | Some (Png fig) \<Rightarrow>
          Inr \<lparr>src = fig, mode = ''RGBA'',
               isize = (int (fst (figsize fig) * dpi fig), int (snd (figsize fig) * dpi fig)),
               alpha = None\<rparr>)"

text \<open>
  \<^verbatim>\<open>img = Image.open(image_path); img = img.convert("RGBA"); img = img.resize(size)\<close>
  \<^verbatim>\<open>mask = Image.new("L", img.size, 0)\<close>
  \<^verbatim>\<open>draw_mask.rounded_rectangle([(0, 0), img.size], corner_radius, fill=255)\<close>
  \<^verbatim>\<open>img.putalpha(mask)\<close>
  \<^verbatim>\<open>combined_img.paste(img, (position[0], position[1] + gap), img)\<close>
  \<^verbatim>\<open>img.resize\<close> raises \<^verbatim>\<open>ValueError\<close> unless both sides of the size are positive,
  and \<^verbatim>\<open>rounded_rectangle\<close> raises \<^verbatim>\<open>ValueError\<close> on a negative radius.
\<close>

definition paste_with_rounded_corners_and_gap ::
  "canvas \<Rightarrow> string \<Rightarrow> int \<times> int \<Rightarrow> int \<times> int \<Rightarrow> int \<Rightarrow> int \<Rightarrow> disk \<Rightarrow> error + canvas" where
  "paste_with_rounded_corners_and_gap combined_img image_path position sz corner_radius gap d =
     (case image_open image_path d of
        Inl e \<Rightarrow> Inl e
      | Inr img0 \<Rightarrow>
          (let img1 = img0\<lparr>mode := ''RGBA''\<rparr>
           in if fst sz \<le> 0 \<or> snd sz \<le> 0 then Inl ValueError
              else
                (let img2 = img1\<lparr>isize := sz\<rparr>
                 in if corner_radius < 0 then Inl ValueError
                    else
                      (let msk = RoundedRectangle (0, 0) (isize img2) corner_radius 255;
                           img3 = img2\<lparr>alpha := Some msk\<rparr>
                       in Inr (draw_on (Paste img3 (fst position, snd position + gap))
                                 combined_img)))))"

definition heading :: string where
  "heading = ''Global Influence: China and India's Power Impact''"

definition description :: string where
  "description =
     ''This infographic illustrates China's Wind Energy Triumph and Global Electricity Dynamics''"

definition textbox_width :: int where
  "textbox_width = 650"

definition textbox_gap :: int where
  "textbox_gap = 20"

text \<open>
  The loop over the paragraphs, with the canvas and \<^verbatim>\<open>textbox_position_y\<close> as its
  state. The font is loaded in every round.
\<close>

fun textbox_loop :: "env \<Rightarrow> string list \<Rightarrow> int \<Rightarrow> canvas \<Rightarrow> error + canvas" where
  "textbox_loop e [] textbox_position_y combined_img = Inr combined_img"
| "textbox_loop e (paragraph # rest) textbox_position_y combined_img =
     (case truetype e ''times.ttf'' 30 of
        Inl err \<Rightarrow> Inl err
      | Inr textbox_font \<Rightarrow>
          (let wrapped_text = fill e paragraph 41;
               wrapped_text_height = snd (textsize e wrapped_text textbox_font);
               textbox_position = ((width combined_img - textbox_width) div 2, textbox_position_y);
               textbox_height = wrapped_text_height + 40;
               img1 = draw_on (Rectangle textbox_position
                                 (fst textbox_position + textbox_width,
                                  snd textbox_position + textbox_height) ''#FFFFFF'') combined_img;
               img2 = draw_on (MultilineText (fst textbox_position + 20, snd textbox_position + 20)
                                 wrapped_text textbox_font ''#000000'' ''left'') img1
           in textbox_loop e rest (textbox_position_y + textbox_height + textbox_gap) img2))"

text \<open>
  \<^verbatim>\<open>create_combined_image(df_selected, selected_countries, df_energy, paragraphs)\<close>,
  with the environment and the working directory it reads. The result is the canvas it
  saves as \<^verbatim>\<open>22056555.png\<close>.
\<close>

definition create_combined_image ::
  "env \<Rightarrow> table \<Rightarrow> string list \<Rightarrow> table \<Rightarrow> string list \<Rightarrow> disk \<Rightarrow> error + canvas" where
  "create_combined_image e df_selected selected_countries df_energy paragraphs d =
     (let img0 = \<lparr>cmode = ''RGB'', width = 2400, height = 1500, color = ''#B0C4DE'', ops = []\<rparr>
      in case truetype e ''arial.ttf'' 50 of
        Inl err \<Rightarrow> Inl err
      | Inr heading_font \<Rightarrow>
      (let heading_width = fst (textsize e heading heading_font);
           heading_height = snd (textsize e heading heading_font);
           heading_position = ((width img0 - heading_width) div 2, 30);
           img1 = draw_on (Text heading_position heading heading_font ''#333333'') img0
       in case truetype e ''arial.ttf'' 30 of
         Inl err \<Rightarrow> Inl err
       | Inr description_font \<Rightarrow>
       (let description_width = fst (textsize e description description_font);
            description_position = ((width img1 - description_width) div 2, heading_height + 50);
            img2 = draw_on (Text description_position description description_font ''#555555'') img1;
            left_space = 50;
            right_space = width img2 - 850;
            graph_width = 800;
            gap = 20;
            wind_energy_position = (left_space, heading_height + 150)
        in case paste_with_rounded_corners_and_gap img2 ''Wind_energy_plot.png''
                  wind_energy_position (graph_width, 600) 40 gap d of
          Inl err \<Rightarrow> Inl err
        | Inr img3 \<Rightarrow>
        (let pie_chart_position = (left_space, heading_height + 150 + 600 + gap)
         in case paste_with_rounded_corners_and_gap img3 ''china_electricity_production_pie.png''
                   pie_chart_position (graph_width, 600) 40 gap d of
           Inl err \<Rightarrow> Inl err
         | Inr img4 \<Rightarrow>
         (let carbon_intensity_position = (right_space, heading_height + 150)
          in case paste_with_rounded_corners_and_gap img4 ''carbon_intensity_plot.png''
                    carbon_intensity_position (graph_width, 600) 40 gap d of
            Inl err \<Rightarrow> Inl err
          | Inr img5 \<Rightarrow>
          (let electricity_generation_mix_position =
                 (right_space, heading_height + 150 + 600 + gap)
           in case paste_with_rounded_corners_and_gap img5 ''electricity_generation_mix_plot.png''
                     electricity_generation_mix_position (graph_width, 600) 40 gap d of
             Inl err \<Rightarrow> Inl err
           | Inr img6 \<Rightarrow> textbox_loop e paragraphs (heading_height + 150) img6))))))"

text \<open>Reading a finished canvas: the pasted images and the text boxes, in drawing order.\<close>

fun paste_of :: "draw_op \<Rightarrow> (pimage \<times> (int \<times> int)) list" where
  "paste_of (Paste img pos) = [(img, pos)]"
| "paste_of _ = []"

fun rectangle_of :: "draw_op \<Rightarrow> ((int \<times> int) \<times> (int \<times> int)) list" where
  "rectangle_of (Rectangle p q f) = [(p, q)]"
| "rectangle_of _ = []"

definition pastes :: "canvas \<Rightarrow> (pimage \<times> (int \<times> int)) list" where
  "pastes img = concat (map paste_of (ops img))"

definition textboxes :: "canvas \<Rightarrow> ((int \<times> int) \<times> (int \<times> int)) list" where
  "textboxes img = concat (map rectangle_of (ops img))"

definition textbox_offsets :: "canvas \<Rightarrow> int list" where
  "textbox_offsets img = map (\<lambda>b. snd (fst b)) (textboxes img)"

definition textbox_heights :: "canvas \<Rightarrow> int list" where
  "textbox_heights img = map (\<lambda>b. snd (snd b) - snd (fst b)) (textboxes img)"

definition heading_height_of :: "env \<Rightarrow> int" where
  "heading_height_of e = snd (textsize e heading (''arial.ttf'', 50))"

definition wrapped_height :: "env \<Rightarrow> string \<Rightarrow> int" where
  "wrapped_height e paragraph = snd (textsize e (fill e paragraph 41) (''times.ttf'', 30))"

text \<open>
  The text boxes as the layout rule describes them: a column of boxes of width 650 at
  x = 875, the first at the given offset, each as high as its wrapped text plus 40, the
  next one 20 below.
\<close>

fun stacked_boxes :: "env \<Rightarrow> string list \<Rightarrow> int \<Rightarrow> ((int \<times> int) \<times> (int \<times> int)) list" where
  "stacked_boxes e [] y = []"
| "stacked_boxes e (p # ps) y =
     ((875, y), (1525, y + (wrapped_height e p + 40))) #
     stacked_boxes e ps (y + (wrapped_height e p + 40) + 20)"

text \<open>A chart image as the compositor pastes it: 800 by 600, corners rounded at radius 40.\<close>

definition rounded_chart :: "figure \<Rightarrow> pimage" where
  "rounded_chart fig =
     \<lparr>src = fig, mode = ''RGBA'', isize = (800, 600),
      alpha = Some (RoundedRectangle (0, 0) (800, 600) 40 255)\<rparr>"

text \<open>What the compositor needs in place: the fonts, and the four chart images.\<close>

definition chart_files :: "string list" where
  "chart_files =
     [''Wind_energy_plot.png'', ''china_electricity_production_pie.png'',
      ''carbon_intensity_plot.png'', ''electricity_generation_mix_plot.png'']"

definition is_png :: "disk \<Rightarrow> string \<Rightarrow> bool" where
  "is_png d p = (case d p of Some (Png _) \<Rightarrow> True | _ \<Rightarrow> False)"

definition charts_on_disk :: "disk \<Rightarrow> bool" where
  "charts_on_disk d = list_all (is_png d) chart_files"

definition fonts_installed :: "env \<Rightarrow> string list \<Rightarrow> bool" where
  "fonts_installed e paragraphs =
     (font_files e ''arial.ttf'' \<and> (paragraphs = [] \<or> font_files e ''times.ttf''))"

section \<open>Main execution\<close>

text \<open>The constants of the main execution.\<close>

definition selected_countries :: "string list" where
  "selected_countries = [''Canada'', ''India'', ''China'', ''Japan'', ''United Kingdom'']"



definition paragraphs :: "string list" where
  "paragraphs =
     [''Wind Leadership (2012-2022): From 2012 to 2022, China emerged as a leader in wind electricity production, a commendable move towards cleaner energy.'',
      ''Electricity Mix Snapshot (2022): However, in 2022, only 5.5% of China's electricity came from wind, with coal and fossil fuels dominating, as depicted in the Electricity Production Pie graph.'',
      ''Global Impact Dynamics: The global impact of China and India in electricity generation brings both praise and challenges, as pollution accompanies their significant roles. This insight is discerned from the Green House Gas Emission vs Carbon and fossil electricity production graph.'',
      ''India-China Dynamics: India outshines China in fossil and coal electricity production, as seen in the Electricity Generation Mix and Carbon Intensity graphs. Meanwhile, China grapples with high greenhouse gas emissions, evident in the Carbon Intensity graph.'',
      ''Energy Exploration and Competition: We explore wind energy growth, China's energy choices, global challenges, and India-China competition in fossil electricity. These insights, in the graphs, stress the balance for progress and environmental stewardship.'']"


text \<open>Example rows and tables, used to run the definitions on concrete inputs.\<close>

definition mk_row :: "nat \<Rightarrow> string \<Rightarrow> int \<Rightarrow> row" where
  "mk_row i c y =
     \<lparr>idx = i, country = c, year = y, wind_electricity = 0, greenhouse_gas_emissions = 0,
      coal_electricity = 0, fossil_electricity = 0, carbon_intensity_elec = 0,
      gas_electricity = 0, nuclear_electricity = 0, hydro_electricity = 0,
      solar_electricity = 0, biofuel_electricity = 0\<rparr>"

definition small_table :: table where
  "small_table =
     [mk_row 0 ''China'' 2011, mk_row 1 ''China'' 2021, mk_row 2 ''France'' 2021,
      mk_row 3 ''India'' 2021, mk_row 4 ''India'' 2023]"

definition grid_table :: table where
  "grid_table =
     concat (map (\<lambda>c. map (\<lambda>y. mk_row 0 c y) [2012..2022]) selected_countries)"



text \<open>
  An example environment: both fonts load, a text measures its length in width and the
  font size plus its length in height, and wrapping leaves a text as it is. An empty
  directory, one with four blank charts, and one with a CSV file.
\<close>

definition example_env :: env where
  "example_env =
     \<lparr>font_files = (\<lambda>p. p = ''arial.ttf'' \<or> p = ''times.ttf''),
      textsize = (\<lambda>t f. (int (length t), int (snd f) + int (length t))),
      fill = (\<lambda>t w. t)\<rparr>"

definition blank_figure :: figure where
  "blank_figure =
     \<lparr>figsize = (8, 6), cmds = [], title = [], xlabel = [], ylabel = [], xticks = None,
      dpi = 300\<rparr>"

definition empty_disk :: disk where
  "empty_disk = (\<lambda>p. None)"

definition chart_disk :: disk where
  "chart_disk = (\<lambda>p. if p \<in> set chart_files then Some (Png blank_figure) else None)"


section \<open>Properties of the filter\<close>

lemma filter_data_eq:
  "filter_data df sel s e = filter (\<lambda>r. country r \<in> set sel \<and> s \<le> year r \<and> year r \<le> e) df"
  by (simp add: filter_data_def conj_commute conj_left_commute)

text \<open>
  C1. The rows of the output of \<open>filter_data\<close> are exactly the input rows whose country
  is among the selected countries and whose year lies in the inclusive range: every output
  row satisfies both conditions, and every input row that satisfies both is in the output.
\<close>

theorem filter_data_sound_complete:
  "set (filter_data df sel s e) =
     {r. r \<in> set df \<and> country r \<in> set sel \<and> s \<le> year r \<and> year r \<le> e}"
  by (auto simp: filter_data_eq)

text \<open>
  C6. \<open>filter_data\<close> is idempotent: filtering a filtered table again with the same
  countries and the same year range gives back the same table.
\<close>

theorem filter_data_idempotent:
  "filter_data (filter_data df sel s e) sel s e = filter_data df sel s e"
  by (simp add: filter_data_eq)

subsection \<open>Counting the rows of a full grid\<close>

text \<open>
  The rows a filter on a key keeps are counted key by key: the number of rows whose key
  lies in a finite set is the sum, over the keys of the set, of the rows with that key.
\<close>

lemma length_filter_sum:
  "finite S \<Longrightarrow> length (filter (\<lambda>r. f r \<in> S) xs) = (\<Sum>k\<in>S. length (filter (\<lambda>r. f r = k) xs))"
proof (induction xs)
  case Nil
  then show ?case by simp
next
  case (Cons x xs)
  have "(\<Sum>k\<in>S. length (filter (\<lambda>r. f r = k) (x # xs))) =
        (\<Sum>k\<in>S. (if f x = k then 1 else 0) + length (filter (\<lambda>r. f r = k) xs))"
    by (rule sum.cong) auto
  also have "\<dots> = (if f x \<in> S then 1 else 0) + (\<Sum>k\<in>S. length (filter (\<lambda>r. f r = k) xs))"
    using Cons.prems by (simp add: sum.distrib)
  finally show ?case using Cons by simp
qed

lemma card_sel: "card (set selected_countries) = 5"
  by (simp add: selected_countries_def)

lemma grid_column:
  "distinct ys \<Longrightarrow>
   length (filter ((\<lambda>r. country r = c \<and> year r = y) \<circ> mk_row i c') ys) =
     (if c' = c \<and> y \<in> set ys then 1 else 0)"
  by (induction ys) (auto simp: mk_row_def)

lemma grid_cell:
  "distinct cs \<Longrightarrow> distinct ys \<Longrightarrow>
   length (filter (\<lambda>r. country r = c \<and> year r = y) (concat (map (\<lambda>c'. map (mk_row i c') ys) cs))) =
     (if c \<in> set cs \<and> y \<in> set ys then 1 else 0)"
  by (induction cs) (auto simp: grid_column)

lemma grid_table_cell:
  "length (filter (\<lambda>r. country r = c \<and> year r = y) grid_table) =
     (if c \<in> set selected_countries \<and> y \<in> {2012..2022} then 1 else 0)"
proof -
  have "distinct selected_countries" by (simp add: selected_countries_def)
  moreover have "distinct [2012..2022::int]" by simp
  ultimately have "length (filter (\<lambda>r. country r = c \<and> year r = y) grid_table) =
     (if c \<in> set selected_countries \<and> y \<in> set [2012..2022] then 1 else 0)"
    unfolding grid_table_def by (rule grid_cell)
  then show ?thesis by (simp only: set_upto)
qed

text \<open>
  C5. If a table has exactly one row for each of the five selected countries in each of
  the eleven years 2012 to 2022 (and whatever rows for other countries and years), then
  \<open>filter_data\<close> with those countries and the range 2012 to 2022 returns exactly 55 rows.
\<close>

theorem filter_data_full_grid:
  assumes "\<forall>c\<in>set selected_countries. \<forall>y\<in>{2012..2022}.
             length (filter (\<lambda>r. country r = c \<and> year r = y) df) = 1"
  shows "length (filter_data df selected_countries 2012 2022) = 55"
proof -
  let ?S = "set selected_countries \<times> {2012..2022::int}"
  have fin: "finite ?S" by simp
  have "filter_data df selected_countries 2012 2022 = filter (\<lambda>r. (country r, year r) \<in> ?S) df"
    by (simp add: filter_data_eq)
  then have "length (filter_data df selected_countries 2012 2022) =
        (\<Sum>k\<in>?S. length (filter (\<lambda>r. (country r, year r) = k) df))"
    using length_filter_sum [OF fin, of "\<lambda>r. (country r, year r)" df] by simp
  also have "\<dots> = (\<Sum>k\<in>?S. 1)"
    by (rule sum.cong) (use assms in auto)
  also have "\<dots> = 55"
    by (simp add: card_sel)
  finally show ?thesis .
qed

theorem filter_data_full_grid_witness:
  "list_all (\<lambda>c. list_all (\<lambda>y. length (filter (\<lambda>r. country r = c \<and> year r = y) grid_table) = 1)
                        [2012..2022])
            selected_countries \<and>
   length (filter_data grid_table selected_countries 2012 2022) = 55"
proof -
  have h: "\<forall>c\<in>set selected_countries. \<forall>y\<in>{2012..2022}.
             length (filter (\<lambda>r. country r = c \<and> year r = y) grid_table) = 1"
    by (simp add: grid_table_cell)
  have "list_all (\<lambda>c. list_all (\<lambda>y. length (filter (\<lambda>r. country r = c \<and> year r = y) grid_table) = 1)
                        [2012..2022])
            selected_countries"
    unfolding list_all_iff set_upto by (rule h)
  then show ?thesis
    using filter_data_full_grid [OF h] by (rule conjI)
qed

subsection \<open>The input frame is left alone\<close>

lemma getitem_mask_Some:
  "p < length h \<Longrightarrow> getitem_mask keep h p = Some (h @ [filter keep (h ! p)], length h)"
  by (simp add: getitem_mask_def alloc_def)

lemma filter_data_heap_Some:
  assumes "p < length h"
  shows "filter_data_heap h p sel s e =
           Some (h @ [filter (\<lambda>r. country r \<in> set sel) (h ! p), filter_data (h ! p) sel s e],
                 Suc (length h))"
  using assms
  by (simp add: filter_data_heap_def getitem_mask_Some filter_data_def nth_append)

lemma subseq_filter_data: "subseq (filter_data df sel s e) df"
  by (simp add: filter_data_eq)

text \<open>
  C9. \<open>filter_data\<close> does not change its input table: it builds new frames, and every
  frame that existed before the call, the input among them, is the same afterwards. Its
  result is a subsequence of the input's rows: each output row is an input row, and the
  rows keep the order they have in the input.
\<close>

theorem filter_data_frame:
  assumes "p < length h"
  shows "\<exists>h' q. filter_data_heap h p sel s e = Some (h', q) \<and> take (length h) h' = h \<and>
           length h \<le> q \<and> q < length h' \<and> h' ! q = filter_data (h ! p) sel s e \<and>
           subseq (h' ! q) (h ! p) \<and> set (h' ! q) \<subseteq> set (h ! p)"
proof -
  let ?h' = "h @ [filter (\<lambda>r. country r \<in> set sel) (h ! p), filter_data (h ! p) sel s e]"
  have res: "?h' ! Suc (length h) = filter_data (h ! p) sel s e"
    by (simp add: nth_append)
  have sub: "set (filter_data (h ! p) sel s e) \<subseteq> set (h ! p)"
    by (auto simp: filter_data_eq)
  show ?thesis
    using filter_data_heap_Some [OF assms, of sel s e] res sub subseq_filter_data [of "h ! p" sel s e]
    by simp
qed

theorem filter_data_frame_witness: "(0::nat) < length [small_table] \<and>
   (\<exists>h' q. filter_data_heap [small_table] 0 selected_countries 2012 2022 = Some (h', q) \<and>
           take (length [small_table]) h' = [small_table] \<and>
           length [small_table] \<le> q \<and> q < length h' \<and>
           h' ! q = [mk_row 1 ''China'' 2021, mk_row 3 ''India'' 2021] \<and>
           subseq (h' ! q) small_table \<and> set (h' ! q) \<subseteq> set small_table)"
proof -
  have h: "(0::nat) < length [small_table]" by simp
  have v: "filter_data small_table selected_countries 2012 2022 = [mk_row 1 ''China'' 2021, mk_row 3 ''India'' 2021]"
    by (simp add: filter_data_def small_table_def selected_countries_def mk_row_def)
  show ?thesis using filter_data_frame [OF h, of selected_countries 2012 2022] v by simp
qed

section \<open>Properties of the compositor\<close>

lemma is_png_D: "is_png d p \<Longrightarrow> \<exists>fig. d p = Some (Png fig)"
  by (auto simp: is_png_def split: option.splits disk_file.splits)

lemma paste_Png:
  "d p = Some (Png fig) \<Longrightarrow> 0 < fst sz \<Longrightarrow> 0 < snd sz \<Longrightarrow> 0 \<le> r \<Longrightarrow>
   paste_with_rounded_corners_and_gap img p pos sz r g d =
     Inr (draw_on (Paste \<lparr>src = fig, mode = ''RGBA'', isize = sz,
                          alpha = Some (RoundedRectangle (0, 0) sz r 255)\<rparr>
                    (fst pos, snd pos + g)) img)"
  by (simp add: paste_with_rounded_corners_and_gap_def image_open_def)

lemma textbox_loop_result:
  "ps = [] \<or> font_files e ''times.ttf'' \<Longrightarrow> width img = 2400 \<Longrightarrow>
   \<exists>img'. textbox_loop e ps y img = Inr img' \<and>
          cmode img' = cmode img \<and> width img' = width img \<and> height img' = height img \<and>
          color img' = color img \<and> pastes img' = pastes img \<and>
          textboxes img' = textboxes img @ stacked_boxes e ps y"
proof (induction ps arbitrary: y img)
  case Nil
  then show ?case by simp
next
  case (Cons p ps)
  then have f: "font_files e ''times.ttf''" by simp
  let ?h = "wrapped_height e p + 40"
  let ?img2 = "draw_on (MultilineText (875 + 20, y + 20) (fill e p 41) (''times.ttf'', 30) ''#000000'' ''left'')
                 (draw_on (Rectangle (875, y) (1525, y + ?h) ''#FFFFFF'') img)"
  have step: "textbox_loop e (p # ps) y img = textbox_loop e ps (y + ?h + 20) ?img2"
    using f Cons.prems(2)
    by (simp add: truetype_def wrapped_height_def textbox_width_def textbox_gap_def Let_def)
  have w: "width ?img2 = 2400" using Cons.prems(2) by (simp add: draw_on_def)
  from Cons.IH [OF _ w, of "y + ?h + 20"] f
  obtain img' where r: "textbox_loop e ps (y + ?h + 20) ?img2 = Inr img'"
    "cmode img' = cmode ?img2" "width img' = width ?img2" "height img' = height ?img2"
    "color img' = color ?img2" "pastes img' = pastes ?img2"
    "textboxes img' = textboxes ?img2 @ stacked_boxes e ps (y + ?h + 20)"
    by auto
  show ?case
    using step r by (simp add: draw_on_def pastes_def textboxes_def)
qed

lemma charts_on_disk_D:
  assumes "charts_on_disk d"
  obtains f1 f2 f3 f4 where
    "d ''Wind_energy_plot.png'' = Some (Png f1)"
    "d ''china_electricity_production_pie.png'' = Some (Png f2)"
    "d ''carbon_intensity_plot.png'' = Some (Png f3)"
    "d ''electricity_generation_mix_plot.png'' = Some (Png f4)"
proof -
  have "is_png d ''Wind_energy_plot.png''" "is_png d ''china_electricity_production_pie.png''"
    "is_png d ''carbon_intensity_plot.png''" "is_png d ''electricity_generation_mix_plot.png''"
    using assms by (simp_all add: charts_on_disk_def chart_files_def)
  then show ?thesis using that by (blast dest: is_png_D)
qed

lemma draw_on_fields:
  "cmode (draw_on c img) = cmode img" "width (draw_on c img) = width img"
  "height (draw_on c img) = height img" "color (draw_on c img) = color img"
  "ops (draw_on c img) = ops img @ [c]"
  by (simp_all add: draw_on_def)

lemma create_combined_image_result:
  assumes fonts: "fonts_installed e ps"
    and f1: "d ''Wind_energy_plot.png'' = Some (Png f1)"
    and f2: "d ''china_electricity_production_pie.png'' = Some (Png f2)"
    and f3: "d ''carbon_intensity_plot.png'' = Some (Png f3)"
    and f4: "d ''electricity_generation_mix_plot.png'' = Some (Png f4)"
  shows "\<exists>img. create_combined_image e df sel dfe ps d = Inr img \<and>
           cmode img = ''RGB'' \<and> width img = 2400 \<and> height img = 1500 \<and>
           color img = ''#B0C4DE'' \<and>
           pastes img =
             [(rounded_chart f1, (50, heading_height_of e + 150 + 20)),
              (rounded_chart f2, (50, heading_height_of e + 150 + 600 + 20 + 20)),
              (rounded_chart f3, (1550, heading_height_of e + 150 + 20)),
              (rounded_chart f4, (1550, heading_height_of e + 150 + 600 + 20 + 20))] \<and>
           textboxes img = stacked_boxes e ps (heading_height_of e + 150)"
proof -
  let ?hh = "heading_height_of e"
  let ?img2 = "draw_on (Text ((2400 - fst (textsize e description (''arial.ttf'', 30))) div 2, ?hh + 50)
                          description (''arial.ttf'', 30) ''#555555'')
                (draw_on (Text ((2400 - fst (textsize e heading (''arial.ttf'', 50))) div 2, 30)
                          heading (''arial.ttf'', 50) ''#333333'')
                  \<lparr>cmode = ''RGB'', width = 2400, height = 1500, color = ''#B0C4DE'', ops = []\<rparr>)"
  let ?img6 = "draw_on (Paste (rounded_chart f4) (1550, ?hh + 150 + 600 + 20 + 20))
                (draw_on (Paste (rounded_chart f3) (1550, ?hh + 150 + 20))
                  (draw_on (Paste (rounded_chart f2) (50, ?hh + 150 + 600 + 20 + 20))
                    (draw_on (Paste (rounded_chart f1) (50, ?hh + 150 + 20)) ?img2)))"
  have arial: "font_files e ''arial.ttf''" and times: "ps = [] \<or> font_files e ''times.ttf''"
    using fonts by (simp_all add: fonts_installed_def)
  have run: "create_combined_image e df sel dfe ps d = textbox_loop e ps (?hh + 150) ?img6"
    unfolding create_combined_image_def Let_def
    using arial
    by (simp add: truetype_def heading_height_of_def rounded_chart_def draw_on_fields
        paste_Png f1 f2 f3 f4)
  have w6: "width ?img6 = 2400" by (simp add: draw_on_fields)
  from textbox_loop_result [OF times w6, of "?hh + 150"]
  obtain img where r: "textbox_loop e ps (?hh + 150) ?img6 = Inr img"
    "cmode img = cmode ?img6" "width img = width ?img6" "height img = height ?img6"
    "color img = color ?img6" "pastes img = pastes ?img6"
    "textboxes img = textboxes ?img6 @ stacked_boxes e ps (?hh + 150)"
    by auto
  show ?thesis
    using run r by (simp add: draw_on_fields pastes_def textboxes_def)
qed

lemma length_stacked_boxes: "length (stacked_boxes e ps y) = length ps"
  by (induction ps arbitrary: y) simp_all

lemma stacked_boxes_first: "ps \<noteq> [] \<Longrightarrow> snd (fst (stacked_boxes e ps y ! 0)) = y"
  by (cases ps) simp_all

lemma stacked_boxes_height:
  "i < length ps \<Longrightarrow>
   snd (snd (stacked_boxes e ps y ! i)) - snd (fst (stacked_boxes e ps y ! i)) =
     wrapped_height e (ps ! i) + 40"
proof (induction ps arbitrary: y i)
  case Nil
  then show ?case by simp
next
  case (Cons p ps)
  then show ?case by (cases i) simp_all
qed

lemma stacked_boxes_next:
  "Suc i < length ps \<Longrightarrow>
   snd (fst (stacked_boxes e ps y ! Suc i)) =
     snd (fst (stacked_boxes e ps y ! i)) + (wrapped_height e (ps ! i) + 40) + 20"
proof (induction ps arbitrary: y i)
  case Nil
  then show ?case by simp
next
  case (Cons p ps)
  show ?case
  proof (cases i)
    case 0
    with Cons.prems show ?thesis by (cases ps) simp_all
  next
    case (Suc k)
    with Cons.prems Cons.IH [of k] show ?thesis by simp
  qed
qed

text \<open>
  The compositor completes exactly when the fonts it loads and the four chart images are
  in place, so the properties below cover every run that produces a canvas.
\<close>

lemma paste_Inr_png:
  "paste_with_rounded_corners_and_gap img p pos sz r g d = Inr img' \<Longrightarrow> is_png d p"
  by (auto simp: paste_with_rounded_corners_and_gap_def image_open_def is_png_def
      split: option.splits disk_file.splits)

lemma paste_Inr_D:
  assumes "paste_with_rounded_corners_and_gap img p pos sz r g d = Inr img'"
  shows "\<exists>fig. d p = Some (Png fig) \<and> 0 < fst sz \<and> 0 < snd sz \<and> 0 \<le> r \<and>
           img' = draw_on (Paste \<lparr>src = fig, mode = ''RGBA'', isize = sz,
                                   alpha = Some (RoundedRectangle (0, 0) sz r 255)\<rparr>
                            (fst pos, snd pos + g)) img"
  using assms
  by (auto simp: paste_with_rounded_corners_and_gap_def image_open_def Let_def
      split: option.splits disk_file.splits if_splits)

lemma textbox_loop_Inr_font:
  "textbox_loop e ps y img = Inr img' \<Longrightarrow> ps = [] \<or> font_files e ''times.ttf''"
  by (cases ps) (auto simp: truetype_def split: if_splits)

lemma create_combined_image_Inr_needs:
  assumes "create_combined_image e df sel dfe ps d = Inr img"
  shows "fonts_installed e ps \<and> charts_on_disk d"
  using assms
  unfolding create_combined_image_def Let_def fonts_installed_def charts_on_disk_def chart_files_def
  by (auto simp: truetype_def split: sum.splits if_splits
      dest: paste_Inr_png textbox_loop_Inr_font)

lemma create_combined_image_succeeds_iff:
  "(\<exists>img. create_combined_image e df sel dfe ps d = Inr img) \<longleftrightarrow>
     fonts_installed e ps \<and> charts_on_disk d"
proof
  assume "\<exists>img. create_combined_image e df sel dfe ps d = Inr img"
  then show "fonts_installed e ps \<and> charts_on_disk d"
    by (blast dest: create_combined_image_Inr_needs)
next
  assume a: "fonts_installed e ps \<and> charts_on_disk d"
  then obtain f1 f2 f3 f4 where
    "d ''Wind_energy_plot.png'' = Some (Png f1)"
    "d ''china_electricity_production_pie.png'' = Some (Png f2)"
    "d ''carbon_intensity_plot.png'' = Some (Png f3)"
    "d ''electricity_generation_mix_plot.png'' = Some (Png f4)"
    by (blast elim: charts_on_disk_D)
  from create_combined_image_result [OF _ this, of e ps df sel dfe] a
  show "\<exists>img. create_combined_image e df sel dfe ps d = Inr img" by blast
qed

lemma example_fonts: "fonts_installed example_env ps"
  by (simp add: fonts_installed_def example_env_def)

lemma chart_disk_charts: "charts_on_disk chart_disk"
  by (simp add: charts_on_disk_def chart_disk_def chart_files_def is_png_def)

text \<open>
  C2. With the fonts and the four chart images in place, \<open>create_combined_image\<close> draws
  one text box per paragraph. The first box is at the vertical offset
  \<open>heading_height + 150\<close>, each box is as high as the measured height of its wrapped
  text plus 40, and the offset of box \<open>i + 1\<close> is the offset of box \<open>i\<close> plus the height
  of box \<open>i\<close> plus the gap of 20.
\<close>

theorem textbox_offsets_cumulative:
  assumes "fonts_installed e ps" and "charts_on_disk d"
  shows "\<exists>img. create_combined_image e df sel dfe ps d = Inr img \<and>
           length (textbox_offsets img) = length ps \<and>
           length (textbox_heights img) = length ps \<and>
           (ps \<noteq> [] \<longrightarrow> textbox_offsets img ! 0 = heading_height_of e + 150) \<and>
           (\<forall>i. i < length ps \<longrightarrow> textbox_heights img ! i = wrapped_height e (ps ! i) + 40) \<and>
           (\<forall>i. Suc i < length ps \<longrightarrow>
              textbox_offsets img ! Suc i =
                textbox_offsets img ! i + textbox_heights img ! i + 20)"
proof -
  from assms(2) obtain f1 f2 f3 f4 where
    "d ''Wind_energy_plot.png'' = Some (Png f1)"
    "d ''china_electricity_production_pie.png'' = Some (Png f2)"
    "d ''carbon_intensity_plot.png'' = Some (Png f3)"
    "d ''electricity_generation_mix_plot.png'' = Some (Png f4)"
    by (rule charts_on_disk_D)
  from create_combined_image_result [OF assms(1) this, of df sel dfe]
  obtain img where run: "create_combined_image e df sel dfe ps d = Inr img"
    and boxes: "textboxes img = stacked_boxes e ps (heading_height_of e + 150)"
    by blast
  let ?y = "heading_height_of e + 150"
  have len: "length (textbox_offsets img) = length ps" "length (textbox_heights img) = length ps"
    by (simp_all add: textbox_offsets_def textbox_heights_def boxes length_stacked_boxes)
  have first: "ps \<noteq> [] \<longrightarrow> textbox_offsets img ! 0 = ?y"
    by (simp add: textbox_offsets_def boxes length_stacked_boxes stacked_boxes_first)
  have hts: "\<forall>i. i < length ps \<longrightarrow> textbox_heights img ! i = wrapped_height e (ps ! i) + 40"
    by (simp add: textbox_heights_def boxes length_stacked_boxes stacked_boxes_height)
  have nxt: "\<forall>i. Suc i < length ps \<longrightarrow>
      textbox_offsets img ! Suc i = textbox_offsets img ! i + textbox_heights img ! i + 20"
    by (simp add: textbox_offsets_def textbox_heights_def boxes length_stacked_boxes
        stacked_boxes_height stacked_boxes_next)
  from run len first hts nxt show ?thesis by blast
qed

theorem textbox_offsets_cumulative_witness:
  "fonts_installed example_env [''ab'', ''c''] \<and> charts_on_disk chart_disk \<and>
   (\<exists>img. create_combined_image example_env [] [] [] [''ab'', ''c''] chart_disk = Inr img \<and>
      textbox_offsets img ! 0 = 248 \<and> textbox_heights img ! 0 = 72 \<and>
      textbox_offsets img ! 1 = 340 \<and> textbox_heights img ! 1 = 71)"
proof -
  from textbox_offsets_cumulative [of example_env "[''ab'', ''c'']" chart_disk "[]" "[]" "[]",
      OF example_fonts chart_disk_charts]
  obtain img where run: "create_combined_image example_env [] [] [] [''ab'', ''c''] chart_disk = Inr img"
    and first: "textbox_offsets img ! 0 = heading_height_of example_env + 150"
    and hts: "\<forall>i. i < 2 \<longrightarrow> textbox_heights img ! i = wrapped_height example_env ([''ab'', ''c''] ! i) + 40"
    and nxt: "\<forall>i. Suc i < 2 \<longrightarrow>
      textbox_offsets img ! Suc i = textbox_offsets img ! i + textbox_heights img ! i + 20"
    by auto
  have hh: "heading_height_of example_env = 98"
    by (simp add: heading_height_of_def example_env_def heading_def)
  have h0: "textbox_heights img ! 0 = 72" and h1: "textbox_heights img ! 1 = 71"
    using hts by (simp_all add: wrapped_height_def example_env_def)
  have o1: "textbox_offsets img ! 1 = textbox_offsets img ! 0 + textbox_heights img ! 0 + 20"
    using nxt by simp
  show ?thesis
    using run first hh h0 h1 o1 example_fonts chart_disk_charts by auto
qed

text \<open>
  C7. With the fonts and the four chart images in place, the compositor makes a canvas of
  2400 by 1500 pixels with the background colour \<open>#B0C4DE\<close>, and pastes the four charts,
  each resized to 800 by 600 and masked by a rounded rectangle of radius 40: two in the
  left column at x = 50 and two in the right column at x = 1550, the lower one of a
  column starting 20 below the end of the upper one.
\<close>

theorem canvas_and_chart_layout:
  assumes "fonts_installed e ps" and "charts_on_disk d"
  shows "\<exists>img f1 f2 f3 f4.
           create_combined_image e df sel dfe ps d = Inr img \<and>
           width img = 2400 \<and> height img = 1500 \<and> color img = ''#B0C4DE'' \<and>
           d ''Wind_energy_plot.png'' = Some (Png f1) \<and>
           d ''china_electricity_production_pie.png'' = Some (Png f2) \<and>
           d ''carbon_intensity_plot.png'' = Some (Png f3) \<and>
           d ''electricity_generation_mix_plot.png'' = Some (Png f4) \<and>
           pastes img =
             [(rounded_chart f1, (50, heading_height_of e + 170)),
              (rounded_chart f2, (50, heading_height_of e + 170 + 600 + 20)),
              (rounded_chart f3, (1550, heading_height_of e + 170)),
              (rounded_chart f4, (1550, heading_height_of e + 170 + 600 + 20))] \<and>
           list_all (\<lambda>p. isize (fst p) = (800, 600) \<and>
                          alpha (fst p) = Some (RoundedRectangle (0, 0) (800, 600) 40 255))
                    (pastes img)"
proof -
  from assms(2) obtain f1 f2 f3 f4 where f:
    "d ''Wind_energy_plot.png'' = Some (Png f1)"
    "d ''china_electricity_production_pie.png'' = Some (Png f2)"
    "d ''carbon_intensity_plot.png'' = Some (Png f3)"
    "d ''electricity_generation_mix_plot.png'' = Some (Png f4)"
    by (rule charts_on_disk_D)
  from create_combined_image_result [OF assms(1) f, of df sel dfe]
  obtain img where run: "create_combined_image e df sel dfe ps d = Inr img"
    and dims: "width img = 2400" "height img = 1500" "color img = ''#B0C4DE''"
    and ps: "pastes img =
             [(rounded_chart f1, (50, heading_height_of e + 150 + 20)),
              (rounded_chart f2, (50, heading_height_of e + 150 + 600 + 20 + 20)),
              (rounded_chart f3, (1550, heading_height_of e + 150 + 20)),
              (rounded_chart f4, (1550, heading_height_of e + 150 + 600 + 20 + 20))]"
    by blast
  have "list_all (\<lambda>p. isize (fst p) = (800, 600) \<and>
                          alpha (fst p) = Some (RoundedRectangle (0, 0) (800, 600) 40 255))
                    (pastes img)"
    by (simp add: ps rounded_chart_def)
  with run dims ps f show ?thesis by simp
qed

theorem canvas_and_chart_layout_witness:
  "fonts_installed example_env paragraphs \<and> charts_on_disk chart_disk \<and>
   (\<exists>img. create_combined_image example_env [] [] [] paragraphs chart_disk = Inr img \<and>
      width img = 2400 \<and> height img = 1500 \<and> color img = ''#B0C4DE'' \<and>
      pastes img =
        [(rounded_chart blank_figure, (50, 268)), (rounded_chart blank_figure, (50, 888)),
         (rounded_chart blank_figure, (1550, 268)), (rounded_chart blank_figure, (1550, 888))])"
proof -
  have hh: "heading_height_of example_env = 98"
    by (simp add: heading_height_of_def example_env_def heading_def)
  have files: "chart_disk ''Wind_energy_plot.png'' = Some (Png blank_figure)"
    "chart_disk ''china_electricity_production_pie.png'' = Some (Png blank_figure)"
    "chart_disk ''carbon_intensity_plot.png'' = Some (Png blank_figure)"
    "chart_disk ''electricity_generation_mix_plot.png'' = Some (Png blank_figure)"
    by (simp_all add: chart_disk_def chart_files_def)
  show ?thesis
    using canvas_and_chart_layout [of example_env paragraphs chart_disk "[]" "[]" "[]",
        OF example_fonts chart_disk_charts] example_fonts [of paragraphs] chart_disk_charts
    by (auto simp: hh files)
qed

text \<open>
  The canvas does not depend on the two tables and the country list that
  \<open>create_combined_image\<close> is passed: it never reads them.
\<close>

lemma create_combined_image_ignores_tables:
  "create_combined_image e df1 sel1 dfe1 ps d = create_combined_image e df2 sel2 dfe2 ps d"
  by (simp add: create_combined_image_def)

text \<open>
  C10. Every call of \<open>paste_with_rounded_corners_and_gap\<close> that returns has pasted the
  image it loaded, resized to the given size, at \<open>(position[0], position[1] + gap)\<close>,
  that is \<open>gap\<close> below the position it was given; with the size 800 by 600 and the
  radius 40 of the script it returns whenever the file is an image. In every
  run of \<open>create_combined_image\<close> that completes, the lower chart of a column is
  requested at the upper chart's position plus 600 plus the gap, both are pasted 20
  lower, and the distance from the bottom of the upper chart to the top of the lower
  chart is 20.
\<close>

theorem paste_below_position:
  "(\<forall>img'. paste_with_rounded_corners_and_gap img0 p pos sz r g d = Inr img' \<longrightarrow>
      (\<exists>pim. img' = img0\<lparr>ops := ops img0 @ [Paste pim (fst pos, snd pos + g)]\<rparr> \<and>
             isize pim = sz)) \<and>
   (is_png d p \<longrightarrow>
      (\<exists>img'. paste_with_rounded_corners_and_gap img0 p pos (800, 600) 40 g d = Inr img')) \<and>
   (fonts_installed e ps \<and> charts_on_disk d2 \<longrightarrow>
      (\<exists>img a pa b pb c pc f pf.
         create_combined_image e df sel dfe ps d2 = Inr img \<and>
         pastes img = [(a, pa), (b, pb), (c, pc), (f, pf)] \<and>
         pa = (50, (heading_height_of e + 150) + 20) \<and>
         pb = (50, (heading_height_of e + 150 + 600 + 20) + 20) \<and>
         pc = (1550, (heading_height_of e + 150) + 20) \<and>
         pf = (1550, (heading_height_of e + 150 + 600 + 20) + 20) \<and>
         snd (isize a) = 600 \<and> snd (isize c) = 600 \<and>
         snd pb - (snd pa + snd (isize a)) = 20 \<and>
         snd pf - (snd pc + snd (isize c)) = 20))"
proof (intro conjI allI impI)
  fix img'
  assume "paste_with_rounded_corners_and_gap img0 p pos sz r g d = Inr img'"
  from paste_Inr_D [OF this] obtain fig where
    "img' = draw_on (Paste \<lparr>src = fig, mode = ''RGBA'', isize = sz,
                              alpha = Some (RoundedRectangle (0, 0) sz r 255)\<rparr>
                       (fst pos, snd pos + g)) img0"
    by blast
  then have "img' = img0\<lparr>ops := ops img0 @ [Paste \<lparr>src = fig, mode = ''RGBA'', isize = sz,
                              alpha = Some (RoundedRectangle (0, 0) sz r 255)\<rparr>
                       (fst pos, snd pos + g)]\<rparr> \<and>
             isize \<lparr>src = fig, mode = ''RGBA'', isize = sz,
                              alpha = Some (RoundedRectangle (0, 0) sz r 255)\<rparr> = sz"
    by (simp add: draw_on_def)
  then show "\<exists>pim. img' = img0\<lparr>ops := ops img0 @ [Paste pim (fst pos, snd pos + g)]\<rparr> \<and>
             isize pim = sz"
    by blast
next
  assume "is_png d p"
  then obtain fig where "d p = Some (Png fig)" by (blast dest: is_png_D)
  then show "\<exists>img'. paste_with_rounded_corners_and_gap img0 p pos (800, 600) 40 g d = Inr img'"
    by (simp add: paste_Png)
next
  assume a: "fonts_installed e ps \<and> charts_on_disk d2"
  then obtain f1 f2 f3 f4 where f:
    "d2 ''Wind_energy_plot.png'' = Some (Png f1)"
    "d2 ''china_electricity_production_pie.png'' = Some (Png f2)"
    "d2 ''carbon_intensity_plot.png'' = Some (Png f3)"
    "d2 ''electricity_generation_mix_plot.png'' = Some (Png f4)"
    by (blast elim: charts_on_disk_D)
  from a have fonts: "fonts_installed e ps" by simp
  from create_combined_image_result [OF fonts f, of df sel dfe]
  obtain img where run: "create_combined_image e df sel dfe ps d2 = Inr img"
    and ps: "pastes img =
             [(rounded_chart f1, (50, heading_height_of e + 150 + 20)),
              (rounded_chart f2, (50, heading_height_of e + 150 + 600 + 20 + 20)),
              (rounded_chart f3, (1550, heading_height_of e + 150 + 20)),
              (rounded_chart f4, (1550, heading_height_of e + 150 + 600 + 20 + 20))]"
    by blast
  show "\<exists>img a pa b pb c pc f pf.
         create_combined_image e df sel dfe ps d2 = Inr img \<and>
         pastes img = [(a, pa), (b, pb), (c, pc), (f, pf)] \<and>
         pa = (50, (heading_height_of e + 150) + 20) \<and>
         pb = (50, (heading_height_of e + 150 + 600 + 20) + 20) \<and>
         pc = (1550, (heading_height_of e + 150) + 20) \<and>
         pf = (1550, (heading_height_of e + 150 + 600 + 20) + 20) \<and>
         snd (isize a) = 600 \<and> snd (isize c) = 600 \<and>
         snd pb - (snd pa + snd (isize a)) = 20 \<and>
         snd pf - (snd pc + snd (isize c)) = 20"
    using run ps by (simp add: rounded_chart_def)
qed

theorem paste_below_position_witness:
  "is_png chart_disk ''Wind_energy_plot.png'' \<and>
   (\<exists>pim. paste_with_rounded_corners_and_gap
            \<lparr>cmode = ''RGB'', width = 2400, height = 1500, color = ''#B0C4DE'', ops = []\<rparr>
            ''Wind_energy_plot.png'' (50, 248) (800, 600) 40 20 chart_disk =
          Inr \<lparr>cmode = ''RGB'', width = 2400, height = 1500, color = ''#B0C4DE'',
               ops = [Paste pim (50, 268)]\<rparr> \<and> isize pim = (800, 600)) \<and>
   fonts_installed example_env paragraphs \<and> charts_on_disk chart_disk \<and>
   (\<exists>img a b c f.
      create_combined_image example_env [] [] [] paragraphs chart_disk = Inr img \<and>
      pastes img = [(a, (50, 268)), (b, (50, 888)), (c, (1550, 268)), (f, (1550, 888))] \<and>
      snd (isize a) = 600 \<and> snd (isize c) = 600)"
proof -
  have hh: "heading_height_of example_env = 98"
    by (simp add: heading_height_of_def example_env_def heading_def)
  have png: "is_png chart_disk ''Wind_energy_plot.png''"
    by (simp add: is_png_def chart_disk_def chart_files_def)
  let ?img0 = "\<lparr>cmode = ''RGB'', width = 2400, height = 1500, color = ''#B0C4DE'', ops = []\<rparr>"
  note inst = paste_below_position [of ?img0 "''Wind_energy_plot.png''" "(50, 248)" "(800, 600)"
        40 20 chart_disk example_env paragraphs chart_disk "[]" "[]" "[]"]
  from inst png obtain img' where
    p: "paste_with_rounded_corners_and_gap ?img0 ''Wind_energy_plot.png'' (50, 248) (800, 600) 40 20
          chart_disk = Inr img'"
    by auto
  with inst obtain pim where "img' = ?img0\<lparr>ops := ops ?img0 @ [Paste pim (50, 268)]\<rparr>"
    "isize pim = (800, 600)"
    by auto
  with p have one: "\<exists>pim. paste_with_rounded_corners_and_gap ?img0 ''Wind_energy_plot.png''
      (50, 248) (800, 600) 40 20 chart_disk =
          Inr \<lparr>cmode = ''RGB'', width = 2400, height = 1500, color = ''#B0C4DE'',
               ops = [Paste pim (50, 268)]\<rparr> \<and> isize pim = (800, 600)"
    by auto
  have two: "\<exists>img a b c f.
      create_combined_image example_env [] [] [] paragraphs chart_disk = Inr img \<and>
      pastes img = [(a, (50, 268)), (b, (50, 888)), (c, (1550, 268)), (f, (1550, 888))] \<and>
      snd (isize a) = 600 \<and> snd (isize c) = 600"
    using inst example_fonts [of paragraphs] chart_disk_charts by (auto simp: hh)
  from png one two example_fonts [of paragraphs] chart_disk_charts show ?thesis by blast
qed

section \<open>Properties of the renderers\<close>

lemma small_table_years: "year ` set small_table = {2011, 2021, 2023}"
  by (auto simp: small_table_def mk_row_def)

lemma n_colors_zero_iff: "length (remdups (map country df)) = 0 \<longleftrightarrow> df = []"
  by simp

lemma bar_loop_no_colors:
  "bar_loop 0 df_2018 n i energy_types = Inl ZeroDivisionError"
  by (simp add: energy_types_def plt_bar_def)

lemma plt_bar_no_heights:
  assumes "0 < k"
  shows "plt_bar k (map f [0..<n]) [] w l = (if 2 \<le> n then Inl ValueError else Inr (Bar [] w l))"
proof -
  consider "n = 0" | "n = 1" | "2 \<le> n" by linarith
  then show ?thesis
    using assms by cases (simp_all add: plt_bar_def broadcast2_def)
qed

lemma bar_loop_no_rows:
  "0 < k \<Longrightarrow>
   bar_loop k [] n i energy_types =
     (if 2 \<le> n then Inl ValueError
      else Inr [Bar [] bar_width ''Greenhouse Gas Emissions'',
                Bar [] bar_width ''Coal Electricity'',
                Bar [] bar_width ''Fossil Electricity''])"
  by (simp add: energy_types_def plt_bar_no_heights Let_def)

lemma no_2022_rows: "2022 \<notin> year ` set df \<Longrightarrow> filter (\<lambda>r. year r = 2022) df = []"
  by (auto simp: filter_empty_conv)

lemma no_china_2022_rows:
  "2022 \<notin> year ` set df \<Longrightarrow> filter (\<lambda>r. country r = ''China'' \<and> year r = 2022) df = []"
  by (auto simp: filter_empty_conv)

lemma mix_without_2022:
  assumes "2022 \<notin> year ` set df"
  shows "plot_electricity_generation_mix df sel d =
           (if df = [] then Inl ZeroDivisionError
            else if 2 \<le> length sel then Inl ValueError
            else Inr (savefig ''electricity_generation_mix_plot.png''
                        (generation_mix_figure
                           [Bar [] bar_width ''Greenhouse Gas Emissions'',
                            Bar [] bar_width ''Coal Electricity'',
                            Bar [] bar_width ''Fossil Electricity''] sel) d))"
proof (cases "df = []")
  case True
  then show ?thesis
    by (simp add: plot_electricity_generation_mix_def bar_loop_no_colors)
next
  case False
  then have k: "0 < length (remdups (map country df))" by simp
  show ?thesis
    using False
    by (simp add: plot_electricity_generation_mix_def no_2022_rows [OF assms]
        bar_loop_no_rows [OF k])
qed

text \<open>
  C4, as stated, fails. On a table with rows but none for 2022, the two line charts
  complete, since they read no particular year, and so does the bar chart when a single
  country is selected: its three bar calls then draw no bar.
\<close>

theorem renderers_without_2022_counterexample:
  "2022 \<notin> year ` set small_table \<and>
   \<not> isl (plot_wind_energy_trend small_table selected_countries empty_disk) \<and>
   \<not> isl (plot_carbon_intensity small_table selected_countries empty_disk) \<and>
   \<not> isl (plot_electricity_generation_mix small_table [''China''] empty_disk)"
proof -
  have h: "2022 \<notin> year ` set small_table" by (simp add: small_table_years)
  have ne: "small_table \<noteq> []" by (simp add: small_table_def)
  show ?thesis
    using h ne
    by (simp add: plot_wind_energy_trend_def plot_carbon_intensity_def mix_without_2022 [OF h])
qed

text \<open>
  C4, amended. On an input without any row for 2022: the pie renderer fails with an
  index error when it selects the first matching row; the bar-chart renderer fails with
  a zero-division error on a table without rows (the colour cycle is empty), fails with a
  shape mismatch on a table with rows when two or more countries are selected, and
  otherwise saves a chart without bars; the two line-chart renderers do not depend on the
  year 2022 and save their figures.
\<close>

theorem renderers_without_2022:
  assumes "2022 \<notin> year ` set df"
  shows "plot_china_electricity_production_pie df d = Inl IndexError \<and>
         plot_electricity_generation_mix df sel d =
           (if df = [] then Inl ZeroDivisionError
            else if 2 \<le> length sel then Inl ValueError
            else Inr (savefig ''electricity_generation_mix_plot.png''
                        (generation_mix_figure
                           [Bar [] bar_width ''Greenhouse Gas Emissions'',
                            Bar [] bar_width ''Coal Electricity'',
                            Bar [] bar_width ''Fossil Electricity''] sel) d)) \<and>
         plot_wind_energy_trend df sel d =
           Inr (savefig ''Wind_energy_plot.png'' (wind_energy_figure df sel) d) \<and>
         plot_carbon_intensity df sel d =
           Inr (savefig ''carbon_intensity_plot.png'' (carbon_intensity_figure df sel) d)"
proof -
  have pie: "plot_china_electricity_production_pie df d = Inl IndexError"
    by (simp add: plot_china_electricity_production_pie_def no_china_2022_rows [OF assms])
  show ?thesis
    using pie mix_without_2022 [OF assms, of sel d]
    by (simp add: plot_wind_energy_trend_def plot_carbon_intensity_def)
qed

theorem renderers_without_2022_witness:
  "2022 \<notin> year ` set small_table \<and>
   plot_china_electricity_production_pie small_table empty_disk = Inl IndexError \<and>
   plot_electricity_generation_mix small_table selected_countries empty_disk = Inl ValueError \<and>
   \<not> isl (plot_wind_energy_trend small_table selected_countries empty_disk) \<and>
   \<not> isl (plot_carbon_intensity small_table selected_countries empty_disk)"
proof -
  have h: "2022 \<notin> year ` set small_table" by (simp add: small_table_years)
  have l: "2 \<le> length selected_countries" by (simp add: selected_countries_def)
  have ne: "small_table \<noteq> []" by (simp add: small_table_def)
  show ?thesis
    using h l ne renderers_without_2022 [OF h, of empty_disk selected_countries] by simp
qed

lemma mix_on_empty_table:
  "plot_electricity_generation_mix [] selected_countries empty_disk = Inl ZeroDivisionError"
  by (simp add: plot_electricity_generation_mix_def bar_loop_no_colors)

section \<open>Properties of the main execution\<close>

















end
